theory Spec2Isabelle
  imports Main
begin

section \<open>Go values shared by api.go and config.go\<close>

text \<open>
  A Go \<open>error\<close> is a value; \<open>nil\<close> is \<open>None\<close> of \<open>error option\<close>.
  \<open>ErrorString\<close> stands for \<open>errors.New\<close>, \<open>fmt.Errorf\<close> and the errors of the libraries
  (known by their text), \<open>APIError\<close> for the package's own \<open>*Error{message, permanent}\<close>,
  \<open>ErrNotExist\<close> for the operating system's "no such file" error on a path, the only
  error for which \<open>os.IsNotExist\<close> answers true.
\<close>

datatype error =
    ErrorString string
  | APIError (Error_message: string) (permanent: bool)
  | ErrNotExist string

fun Error :: "error \<Rightarrow> string" where
  "Error (ErrorString s) = s"
| "Error (APIError m p) = m"
| "Error (ErrNotExist p) = ''open '' @ p @ '': no such file or directory''"

fun os_IsNotExist :: "error option \<Rightarrow> bool" where
  "os_IsNotExist (Some (ErrNotExist p)) = True"
| "os_IsNotExist e = False"

text \<open>
  Modelled from the spec: \<open>temporaryError\<close> (the file defining \<open>Error\<close> and
  \<open>temporaryError\<close> is not among the sources). The spec classifies what it wraps as
  temporary; it keeps the text of the error it is given.
\<close>

definition temporaryError :: "error \<Rightarrow> error" where
  "temporaryError err = APIError (Error err) False"

text \<open>The verb \<open>%d\<close> of \<open>fmt\<close> on a Go \<open>int\<close>: decimal digits, a minus sign first when negative.\<close>

fun decimal :: "nat \<Rightarrow> string" where
  "decimal n = (if n < 10 then [''0123456789'' ! n]
                else decimal (n div 10) @ [''0123456789'' ! (n mod 10)])"

declare decimal.simps [simp del]

definition fmt_d :: "int \<Rightarrow> string" where
  "fmt_d i = (if i < 0 then CHR ''-'' # decimal (nat (- i)) else decimal (nat i))"

section \<open>HTTP exchanges\<close>

text \<open>
  A response body is a stream: reading it to the end gives the bytes received and, when the
  stream broke, the error that ended it (\<open>ioutil.ReadAll\<close> returns both).
\<close>

record body =
  received :: string
  read_err :: "error option"

record response =
  StatusCode :: int
  Body :: body

record request =
  Method :: string
  URL :: string
  Header :: "(string \<times> string) list"
  Payload :: string

definition ioutil_ReadAll :: "body \<Rightarrow> string \<times> error option" where
  "ioutil_ReadAll b = (received b, read_err b)"

definition isHTTPSuccess :: "int \<Rightarrow> bool" where
  "isHTTPSuccess code = (code \<ge> 200 \<and> code < 300)"

definition isHTTPClientError :: "int \<Rightarrow> bool" where
  "isHTTPClientError code = (code \<ge> 400 \<and> code < 500)"

definition handleHTTPResponse :: "response \<Rightarrow> error option" where
  "handleHTTPResponse resp =
     (if \<not> isHTTPSuccess (StatusCode resp) then
        (case ioutil_ReadAll (Body resp) of
           (body, Some err) \<Rightarrow>
             Some (temporaryError (ErrorString
               (''request failed ('' @ fmt_d (StatusCode resp) @ '') and body read failed: '' @ Error err)))
         | (body, None) \<Rightarrow>
             Some (APIError
               (''HTTP request failed ('' @ fmt_d (StatusCode resp) @ ''): '' @ body)
               (isHTTPClientError (StatusCode resp))))
      else None)"

section \<open>The world outside the process\<close>

text \<open>
  The file system (\<open>os\<close>, and \<open>afero\<close>'s \<open>Fs\<close> over it): a node is absent or a regular file with
  its permission bits and bytes. An operation can also fail for a reason of the system's
  own (permissions, a full disk); \<open>fault\<close> says which do: reading or inspecting a file that
  is there, creating or writing at any path.
\<close>

datatype fsop = OpStat | OpCreate | OpRead | OpWrite

record filesystem =
  nodes :: "string \<Rightarrow> (nat \<times> string) option"
  fault :: "fsop \<Rightarrow> string \<Rightarrow> error option"

text \<open>\<open>os.Stat\<close>; its callers here drop the \<open>FileInfo\<close> and keep the error.\<close>

definition os_Stat :: "filesystem \<Rightarrow> string \<Rightarrow> error option" where
  "os_Stat fs path =
     (case nodes fs path of
        None \<Rightarrow> Some (ErrNotExist path)
      | Some f \<Rightarrow> fault fs OpStat path)"

text \<open>
  \<open>os.Create\<close>: creates the file or truncates the one that is there. The mode recorded for
  a created file is the 0666 that \<open>os.Create\<close> asks for; the umask of the process, which
  the system takes off, is not modelled.
\<close>

definition os_Create :: "filesystem \<Rightarrow> string \<Rightarrow> error option \<times> filesystem" where
  "os_Create fs path =
     (case fault fs OpCreate path of
        Some e \<Rightarrow> (Some e, fs)
      | None \<Rightarrow>
          (None, fs\<lparr>nodes := (nodes fs)(path \<mapsto>
             (case nodes fs path of None \<Rightarrow> 438 | Some (perm, old) \<Rightarrow> perm, []))\<rparr>))"

text \<open>
  \<open>io.Copy(out, body)\<close> onto the open file \<open>out\<close>: the bytes received are appended, and the
  error that ended the stream, if any, is returned. A failing write is taken to write nothing.
\<close>

definition io_Copy :: "filesystem \<Rightarrow> string \<Rightarrow> body \<Rightarrow> error option \<times> filesystem" where
  "io_Copy fs out b =
     (case fault fs OpWrite out of
        Some e \<Rightarrow> (Some e, fs)
      | None \<Rightarrow>
          (read_err b,
           fs\<lparr>nodes := (nodes fs)(out \<mapsto>
             (case nodes fs out of None \<Rightarrow> (438, received b)
              | Some (perm, old) \<Rightarrow> (perm, old @ received b)))\<rparr>))"

definition afero_ReadFile :: "filesystem \<Rightarrow> string \<Rightarrow> string \<times> error option" where
  "afero_ReadFile fs path =
     (case nodes fs path of
        None \<Rightarrow> ([], Some (ErrNotExist path))
      | Some (perm, buf) \<Rightarrow>
          (case fault fs OpRead path of
             Some e \<Rightarrow> ([], Some e)
           | None \<Rightarrow> (buf, None)))"

text \<open>
  \<open>afero.WriteFile\<close>: opens with create and truncate, writes the buffer. The mode is used
  only when the file is created. A failing write is taken to leave the file as it was.
\<close>

definition afero_WriteFile :: "filesystem \<Rightarrow> string \<Rightarrow> string \<Rightarrow> nat \<Rightarrow> error option \<times> filesystem" where
  "afero_WriteFile fs path buf perm =
     (case fault fs OpWrite path of
        Some e \<Rightarrow> (Some e, fs)
      | None \<Rightarrow>
          (None, fs\<lparr>nodes := (nodes fs)(path \<mapsto>
             (case nodes fs path of None \<Rightarrow> perm | Some (perm', old) \<Rightarrow> perm', buf))\<rparr>))"

section \<open>config.go: the private configuration and its lock\<close>

record PrivateConfig =
  Password :: string
  DeviceID :: int

definition IsValid :: "PrivateConfig \<Rightarrow> bool" where
  "IsValid conf = (Password conf \<noteq> [] \<and> DeviceID conf \<noteq> 0)"

text \<open>
  A \<open>flock.Flock\<close> as the process sees it: the path of the lock file and the two flags the
  library keeps, \<open>flock_l\<close> (its \<open>l\<close>) for an exclusive lock held through this object,
  which is what \<open>Locked\<close> reports, and \<open>flock_r\<close> (its \<open>r\<close>) for a shared one.
\<close>

record Flock =
  flock_path :: string
  flock_l :: bool
  flock_r :: bool

datatype lockmode = LOCK_EX | LOCK_SH

record LockSafeConfig =
  fileLock :: Flock
  filename :: string
  config :: "PrivateConfig option"

definition lockfile :: string where
  "lockfile = ''/var/lock/go-api-priv.lock''"

definition RegisteredConfigPath :: string where
  "RegisteredConfigPath = ''/etc/cacophony/device-priv.yaml''"

section \<open>api.go: the client\<close>

record CacophonyClient =
  group :: string
  name :: string
  password :: string
  token :: string
  justRegistered :: bool

record CacophonyAPI =
  Client :: CacophonyClient
  serverURL :: string
  regURL :: string
  authURL :: string

record tokenResponse =
  Success :: bool
  Messages :: "string list"
  Token :: string

record FileDetails =
  Name :: string
  OriginalName :: string

record FileInfo =
  Details :: FileDetails
  Type :: string

record FileResponse =
  File :: FileInfo
  Jwt :: string

text \<open>
  What the package cannot decide: how the network answers a request (\<open>net\<close>), which URLs
  \<open>net/url\<close> refuses to parse (\<open>url_err\<close>), what \<open>randString\<close> draws (\<open>rand_src\<close>, by call
  number and length; its file is not among the sources), \<open>encoding/json\<close>
  (\<open>json_encode\<close> on a \<open>map[string]string\<close>, \<open>json_decode\<close> of a body into a \<open>tokenResponse\<close>),
  \<open>yaml.v2\<close> (\<open>yaml_encode\<close> of a \<open>PrivateConfig\<close>; \<open>yaml_decode\<close> of a document into the
  \<open>*PrivateConfig\<close> it is given, returning the pointer afterwards and the error), and
  what the attempts of \<open>flock\<close> meet when the process asks for a lock it does not hold, during
  at most \<open>lockTimeout\<close> (\<open>flock_try\<close>: whether the lock was taken, and the error of the
  attempt that failed, if one did).
  What it changes: the requests sent so far (\<open>sent\<close>), the number of random strings drawn
  (\<open>rand_calls\<close>) and the file system (\<open>Fs\<close>).
\<close>

record world =
  net :: "request \<Rightarrow> error + response"
  url_err :: "string \<Rightarrow> error option"
  rand_src :: "nat \<Rightarrow> nat \<Rightarrow> string"
  json_encode :: "(string \<times> string) list \<Rightarrow> string"
  json_decode :: "body \<Rightarrow> error + tokenResponse"
  yaml_encode :: "PrivateConfig \<Rightarrow> string"
  yaml_decode :: "string \<Rightarrow> PrivateConfig option \<Rightarrow> PrivateConfig option \<times> error option"
  flock_try :: "lockmode \<Rightarrow> bool \<times> error option"
  sent :: "request list"
  rand_calls :: nat
  Fs :: filesystem

definition basePath :: string where
  "basePath = ''/api/v1''"

definition randString :: "world \<Rightarrow> nat \<Rightarrow> string \<times> world" where
  "randString w n = (rand_src w (rand_calls w) n, w\<lparr>rand_calls := Suc (rand_calls w)\<rparr>)"

text \<open>\<open>json.Marshal\<close> of a \<open>map[string]string\<close> always encodes: its error is \<open>nil\<close>.\<close>

definition json_Marshal :: "world \<Rightarrow> (string \<times> string) list \<Rightarrow> error + string" where
  "json_Marshal w m = Inr (json_encode w m)"

definition Header_Set :: "(string \<times> string) list \<Rightarrow> string \<Rightarrow> string \<Rightarrow> (string \<times> string) list" where
  "Header_Set h k v = (k, v) # filter (\<lambda>kv. fst kv \<noteq> k) h"

definition http_NewRequest :: "world \<Rightarrow> string \<Rightarrow> string \<Rightarrow> string \<Rightarrow> error + request" where
  "http_NewRequest w method url payload =
     (case url_err w url of
        Some e \<Rightarrow> Inl e
      | None \<Rightarrow> Inr \<lparr>Method = method, URL = url, Header = [], Payload = payload\<rparr>)"

definition http_Do :: "world \<Rightarrow> request \<Rightarrow> (error + response) \<times> world" where
  "http_Do w req = (net w req, w\<lparr>sent := sent w @ [req]\<rparr>)"

definition http_Post :: "world \<Rightarrow> string \<Rightarrow> string \<Rightarrow> string \<Rightarrow> (error + response) \<times> world" where
  "http_Post w url contentType payload =
     (case http_NewRequest w ''POST'' url payload of
        Inl e \<Rightarrow> (Inl e, w)
      | Inr req \<Rightarrow> http_Do w (req\<lparr>Header := Header_Set (Header req) ''Content-Type'' contentType\<rparr>))"

definition http_Get :: "world \<Rightarrow> string \<Rightarrow> (error + response) \<times> world" where
  "http_Get w url =
     (case http_NewRequest w ''GET'' url [] of
        Inl e \<Rightarrow> (Inl e, w)
      | Inr req \<Rightarrow> http_Do w req)"

definition message :: "tokenResponse \<Rightarrow> string" where
  "message resp = (if length (Messages resp) > 0 then Messages resp ! 0 else ''unknown'')"

text \<open>
  \<open>authenticate\<close> and \<open>register\<close> work on the \<open>CacophonyAPI\<close> they are called on: the result
  is the error, the object after the call and the world after the call.
\<close>

definition authenticate :: "world \<Rightarrow> CacophonyAPI \<Rightarrow> error option \<times> CacophonyAPI \<times> world" where
  "authenticate w api =
     (if password (Client api) = [] then (Some (ErrorString ''no password set''), api, w)
      else
        (case json_Marshal w [(''devicename'', name (Client api)),
                               (''password'', password (Client api))] of
           Inl err \<Rightarrow> (Some err, api, w)
         | Inr payload \<Rightarrow>
             (case http_Post w (authURL api) ''application/json'' payload of
                (Inl err, w') \<Rightarrow> (Some err, api, w')
              | (Inr postResp, w') \<Rightarrow>
                  (case handleHTTPResponse postResp of
                     Some err \<Rightarrow> (Some err, api, w')
                   | None \<Rightarrow>
                       (case json_decode w' (Body postResp) of
                          Inl err \<Rightarrow> (Some (ErrorString (''decode: '' @ Error err)), api, w')
                        | Inr resp \<Rightarrow>
                            if \<not> Success resp then
                              (Some (ErrorString (''failed getting new token: '' @ message resp)),
                               api, w')
                            else
                              (None, api\<lparr>Client := (Client api)\<lparr>token := Token resp\<rparr>\<rparr>, w'))))))"

definition register :: "world \<Rightarrow> CacophonyAPI \<Rightarrow> error option \<times> CacophonyAPI \<times> world" where
  "register w0 api =
     (if password (Client api) \<noteq> [] then (Some (ErrorString ''already registered''), api, w0)
      else
        (case randString w0 20 of (password', w) \<Rightarrow>
        (case json_Marshal w [(''group'', group (Client api)),
                               (''devicename'', name (Client api)),
                               (''password'', password')] of
           Inl err \<Rightarrow> (Some err, api, w)
         | Inr payload \<Rightarrow>
             (case http_Post w (regURL api) ''application/json'' payload of
                (Inl err, w') \<Rightarrow> (Some err, api, w')
              | (Inr postResp, w') \<Rightarrow>
                  (case handleHTTPResponse postResp of
                     Some err \<Rightarrow> (Some err, api, w')
                   | None \<Rightarrow>
                       (case json_decode w' (Body postResp) of
                          Inl err \<Rightarrow> (Some (ErrorString (''decode: '' @ Error err)), api, w')
                        | Inr respData \<Rightarrow>
                            if \<not> Success respData then
                              (Some (ErrorString (''registration failed: '' @ message respData)),
                               api, w')
                            else
                              (None,
                               api\<lparr>Client := (Client api)\<lparr>password := password',
                                                          token := Token respData,
                                                          justRegistered := True\<rparr>\<rparr>,
                               w')))))))"

text \<open>
  \<open>NewAPI\<close>. \<open>NewAPI_run\<close> is the body of the function with the object it allocated kept in
  the result, also when the call fails (\<open>None\<close>: nothing was allocated); \<open>NewAPI\<close> is what
  the caller receives, \<open>nil\<close> in place of the object when there is an error.
\<close>

definition NewAPI_run ::
  "world \<Rightarrow> string \<Rightarrow> string \<Rightarrow> string \<Rightarrow> string \<Rightarrow> CacophonyAPI option \<times> error option \<times> world" where
  "NewAPI_run w serverURL' group' deviceName password' =
     (if deviceName = [] then (None, Some (ErrorString ''no device name''), w)
      else
        let client = \<lparr>group = group', name = deviceName, password = password',
                      token = [], justRegistered = False\<rparr>;
            api = \<lparr>Client = client, serverURL = serverURL',
                   regURL = serverURL' @ basePath @ ''/devices'',
                   authURL = serverURL' @ ''/authenticate_device''\<rparr>
        in if password client = [] then
             (case register w api of (err, api', w') \<Rightarrow> (Some api', err, w'))
           else
             (case authenticate w api of (err, api', w') \<Rightarrow> (Some api', err, w')))"

definition NewAPI ::
  "world \<Rightarrow> string \<Rightarrow> string \<Rightarrow> string \<Rightarrow> string \<Rightarrow> CacophonyAPI option \<times> error option \<times> world" where
  "NewAPI w serverURL' group' deviceName password' =
     (case NewAPI_run w serverURL' group' deviceName password' of
        (api, Some err, w') \<Rightarrow> (None, Some err, w')
      | (api, None, w') \<Rightarrow> (api, None, w'))"

text \<open>
  The object \<open>NewAPI\<close> allocates before it registers or authenticates, and the requests
  that \<open>register\<close> and \<open>authenticate\<close> hand to \<open>httpClient.Post\<close>: the URL, the content
  type and the encoded payload as the two functions build them.
\<close>

definition NewAPI_object :: "string \<Rightarrow> string \<Rightarrow> string \<Rightarrow> string \<Rightarrow> CacophonyAPI" where
  "NewAPI_object s g d p =
     \<lparr>Client = \<lparr>group = g, name = d, password = p, token = [], justRegistered = False\<rparr>,
      serverURL = s, regURL = s @ ''/api/v1/devices'', authURL = s @ ''/authenticate_device''\<rparr>"

definition post_request :: "string \<Rightarrow> string \<Rightarrow> request" where
  "post_request url payload =
     \<lparr>Method = ''POST'', URL = url, Header = [(''Content-Type'', ''application/json'')],
      Payload = payload\<rparr>"

definition register_request :: "world \<Rightarrow> CacophonyAPI \<Rightarrow> request" where
  "register_request w api =
     post_request (regURL api)
       (json_encode w [(''group'', group (Client api)), (''devicename'', name (Client api)),
                       (''password'', rand_src w (rand_calls w) 20)])"

definition authenticate_request :: "world \<Rightarrow> CacophonyAPI \<Rightarrow> request" where
  "authenticate_request w api =
     post_request (authURL api)
       (json_encode w [(''devicename'', name (Client api)), (''password'', password (Client api))])"

definition getFileFromJWT :: "world \<Rightarrow> CacophonyAPI \<Rightarrow> string \<Rightarrow> string \<Rightarrow> error option \<times> world" where
  "getFileFromJWT w0 api jwt path =
     (case os_Create (Fs w0) path of
        (Some err, fs) \<Rightarrow> (Some err, w0\<lparr>Fs := fs\<rparr>)
      | (None, fs) \<Rightarrow>
          (case http_Get (w0\<lparr>Fs := fs\<rparr>) (serverURL api @ basePath @ ''/signedUrl?jwt='' @ jwt) of
             (Inl err, w) \<Rightarrow> (Some err, w)
           | (Inr resp, w) \<Rightarrow>
               (case handleHTTPResponse resp of
                  Some err \<Rightarrow> (Some err, w)
                | None \<Rightarrow>
                    (case io_Copy (Fs w) path (Body resp) of
                       (Some err, fs') \<Rightarrow> (Some err, w\<lparr>Fs := fs'\<rparr>)
                     | (None, fs') \<Rightarrow> (None, w\<lparr>Fs := fs'\<rparr>)))))"

definition DownloadFile :: "world \<Rightarrow> CacophonyAPI \<Rightarrow> FileResponse \<Rightarrow> string \<Rightarrow> error option \<times> world" where
  "DownloadFile w api fileResponse filePath =
     (case os_Stat (Fs w) filePath of
        None \<Rightarrow> (None, w)
      | Some err \<Rightarrow> getFileFromJWT w api (Jwt fileResponse) filePath)"

text \<open>
  \<open>GetSchedule\<close> drops the error of \<open>http.NewRequest\<close> and sets a header on the request
  it returned: on a URL that does not parse the request is \<open>nil\<close> and the call panics.
\<close>

datatype 'a outcome = Panics | Returns 'a

definition GetSchedule :: "world \<Rightarrow> CacophonyAPI \<Rightarrow> (string \<times> error option) outcome \<times> world" where
  "GetSchedule w api =
     (case http_NewRequest w ''GET'' (serverURL api @ basePath @ ''schedules'') [] of
        Inl err \<Rightarrow> (Panics, w)
      | Inr req \<Rightarrow>
          (case http_Do w (req\<lparr>Header := Header_Set (Header req) ''Authorization'' (token (Client api))\<rparr>) of
             (Inl err, w') \<Rightarrow> (Returns ([], Some err), w')
           | (Inr resp, w') \<Rightarrow> (Returns (ioutil_ReadAll (Body resp)), w')))"

section \<open>config.go: reading and writing under the lock\<close>

text \<open>
  \<open>yaml.Marshal\<close> of a \<open>PrivateConfig\<close>, a string and an int, always encodes: its error
  is \<open>nil\<close>.
\<close>

definition yaml_Marshal :: "world \<Rightarrow> PrivateConfig \<Rightarrow> error + string" where
  "yaml_Marshal w conf = Inr (yaml_encode w conf)"

definition yaml_Unmarshal :: "world \<Rightarrow> string \<Rightarrow> PrivateConfig option \<Rightarrow> PrivateConfig option \<times> error option" where
  "yaml_Unmarshal w buf into = yaml_decode w buf into"

definition flock_New :: "string \<Rightarrow> Flock" where
  "flock_New p = \<lparr>flock_path = p, flock_l = False, flock_r = False\<rparr>"

definition Locked :: "Flock \<Rightarrow> bool" where
  "Locked f = flock_l f"

text \<open>
  \<open>TryLockContext\<close> and \<open>TryRLockContext\<close>: a lock of that kind already held through this
  object is reported at once. Otherwise the library repeats a non-blocking attempt every
  \<open>lockRetryDelay\<close> until the lock is taken, an attempt fails with an error, or the context
  is done; when the context is done it returns \<open>false\<close> and the error of the context, which
  for a context made by \<open>context.WithTimeout\<close> is \<open>context.DeadlineExceeded\<close>. So a lock that
  is not taken always comes with an error: the one of the failed attempt, or the deadline
  when every attempt found the lock held by another process.
\<close>

definition DeadlineExceeded :: error where
  "DeadlineExceeded = ErrorString ''context deadline exceeded''"

definition tryCtx :: "bool \<times> error option \<Rightarrow> bool \<times> error option" where
  "tryCtx met =
     (case met of
        (True, err) \<Rightarrow> (True, None)
      | (False, Some err) \<Rightarrow> (False, Some err)
      | (False, None) \<Rightarrow> (False, Some DeadlineExceeded))"


definition TryRLockContext :: "world \<Rightarrow> Flock \<Rightarrow> (bool \<times> error option) \<times> Flock" where
  "TryRLockContext w f =
     (if flock_r f then ((True, None), f)
      else (case tryCtx (flock_try w LOCK_SH) of
              (locked, err) \<Rightarrow> ((locked, err), if locked then f\<lparr>flock_r := True\<rparr> else f)))"

definition flock_Unlock :: "Flock \<Rightarrow> Flock" where
  "flock_Unlock f = f\<lparr>flock_l := False, flock_r := False\<rparr>"

definition NewLockSafeConfig :: "string \<Rightarrow> LockSafeConfig" where
  "NewLockSafeConfig filename' =
     \<lparr>fileLock = flock_New lockfile, filename = filename', config = None\<rparr>"

definition Unlock :: "LockSafeConfig \<Rightarrow> LockSafeConfig" where
  "Unlock lockSafeConfig = lockSafeConfig\<lparr>fileLock := flock_Unlock (fileLock lockSafeConfig)\<rparr>"


definition getReadLock :: "world \<Rightarrow> Flock \<Rightarrow> (bool \<times> error option) \<times> Flock" where
  "getReadLock w fileLock' = TryRLockContext w fileLock'"

text \<open>
  \<open>Read\<close>. \<open>Read_file\<close> is the part of the body that runs with the lock: from
  \<open>afero.ReadFile\<close> to the end. \<open>Read\<close> runs it directly when the exclusive lock is held
  and otherwise between taking the shared lock and the deferred \<open>Unlock\<close>. The result is
  the pair the caller receives and the handle after the call.
\<close>

definition Read_file :: "world \<Rightarrow> LockSafeConfig \<Rightarrow> (PrivateConfig option \<times> error option) \<times> LockSafeConfig" where
  "Read_file w lockSafeConfig =
     (case afero_ReadFile (Fs w) (filename lockSafeConfig) of
        (buf, err) \<Rightarrow>
          if os_IsNotExist err then ((None, None), lockSafeConfig)
          else if err \<noteq> None then ((None, err), lockSafeConfig)
          else (case yaml_Unmarshal w buf (config lockSafeConfig) of
                  (conf, Some err') \<Rightarrow> ((None, Some err'), lockSafeConfig\<lparr>config := conf\<rparr>)
                | (conf, None) \<Rightarrow> ((conf, None), lockSafeConfig\<lparr>config := conf\<rparr>)))"

definition Read :: "world \<Rightarrow> LockSafeConfig \<Rightarrow> (PrivateConfig option \<times> error option) \<times> LockSafeConfig" where
  "Read w lockSafeConfig =
     (let locked = Locked (fileLock lockSafeConfig) in
      if locked = False then
        (case getReadLock w (fileLock lockSafeConfig) of
           ((locked', err), f) \<Rightarrow>
             if locked' = False \<or> err \<noteq> None then ((None, err), lockSafeConfig\<lparr>fileLock := f\<rparr>)
             else (case Read_file w (lockSafeConfig\<lparr>fileLock := f\<rparr>) of
                     (res, lockSafeConfig') \<Rightarrow> (res, Unlock lockSafeConfig')))
      else Read_file w lockSafeConfig)"

definition LoadPrivateConfig :: "world \<Rightarrow> PrivateConfig option \<times> error option" where
  "LoadPrivateConfig w = fst (Read w (NewLockSafeConfig RegisteredConfigPath))"

definition Write :: "world \<Rightarrow> LockSafeConfig \<Rightarrow> int \<Rightarrow> string \<Rightarrow> error option \<times> world" where
  "Write w lockSafeConfig deviceID password' =
     (let conf = \<lparr>Password = password', DeviceID = deviceID\<rparr> in
      case yaml_Marshal w conf of
        Inl err \<Rightarrow> (Some err, w)
      | Inr buf \<Rightarrow>
          if Locked (fileLock lockSafeConfig) then
            (case afero_WriteFile (Fs w) (filename lockSafeConfig) buf 384 of
               (err, fs) \<Rightarrow> (err, w\<lparr>Fs := fs\<rparr>))
          else (Some (ErrorString (''file is not locked '' @ filename lockSafeConfig)), w))"

section \<open>Concrete worlds\<close>

text \<open>
  Small stand-ins for the libraries and the system, on which the functions above can be
  run: a codec for token responses over a line format (\<open>ok:TOKEN\<close>, \<open>fail:MESSAGE\<close>, \<open>fail\<close>), a codec
  for the two keys of a \<open>PrivateConfig\<close>, and a world built from a network, a lock
  service and a file system. In \<open>lock_timeout err\<close> the lock is never taken: every attempt
  finds it held (\<open>err\<close> is \<open>None\<close>) or an attempt fails with \<open>err\<close>.
\<close>

definition demo_json_encode :: "(string \<times> string) list \<Rightarrow> string" where
  "demo_json_encode m = concat (map (\<lambda>kv. fst kv @ ''='' @ snd kv @ '';'') m)"

definition demo_json_decode :: "body \<Rightarrow> error + tokenResponse" where
  "demo_json_decode b =
     (case read_err b of
        Some e \<Rightarrow> Inl e
      | None \<Rightarrow>
          if take 3 (received b) = ''ok:'' then
            Inr \<lparr>Success = True, Messages = [], Token = drop 3 (received b)\<rparr>
          else if received b = ''fail'' then
            Inr \<lparr>Success = False, Messages = [], Token = []\<rparr>
          else if take 5 (received b) = ''fail:'' then
            Inr \<lparr>Success = False, Messages = [drop 5 (received b)], Token = []\<rparr>
          else Inl (ErrorString ''invalid character''))"

definition newline :: char where
  "newline = CHR 0x0A"

text \<open>
  The stand-in for \<open>yaml.v2\<close> writes the two keys on a line each. A password of letters
  and digits that begins with a letter and is not a word with a meaning of its own is
  written plain; any other password is written between double quotes, with the quote, the
  backslash and the line feed escaped.
\<close>

definition dquote :: char where
  "dquote = CHR 0x22"

definition backslash :: char where
  "backslash = CHR 0x5C"

definition letters :: string where
  "letters = ''abcdefghijklmnopqrstuvwxyzABCDEFGHIJKLMNOPQRSTUVWXYZ''"

definition reserved_words :: "string list" where
  "reserved_words =
     [''y'', ''Y'', ''yes'', ''Yes'', ''YES'', ''n'', ''N'', ''no'', ''No'', ''NO'',
      ''on'', ''On'', ''ON'', ''off'', ''Off'', ''OFF'', ''true'', ''True'', ''TRUE'',
      ''false'', ''False'', ''FALSE'', ''null'', ''Null'', ''NULL'']"

definition alnum :: string where
  "alnum = letters @ ''0123456789''"

definition plain_ok :: "string \<Rightarrow> bool" where
  "plain_ok s =
     (case s of
        [] \<Rightarrow> False
      | c # cs \<Rightarrow> c \<in> set letters \<and> list_all (\<lambda>x. x \<in> set alnum) cs
                  \<and> s \<notin> set reserved_words)"

fun escape :: "string \<Rightarrow> string" where
  "escape [] = [dquote]"
| "escape (c # cs) =
     (if c = newline then [backslash, CHR ''n'']
      else if c = dquote \<or> c = backslash then [backslash, c]
      else [c]) @ escape cs"

fun unescape :: "string \<Rightarrow> string option" where
  "unescape [] = None"
| "unescape [c] = (if c = dquote then Some [] else None)"
| "unescape (c # d # ds) =
     (if c = dquote then None
      else if c = backslash then
        (if d = CHR ''n'' then map_option ((#) newline) (unescape ds)
         else if d = dquote \<or> d = backslash then map_option ((#) d) (unescape ds)
         else None)
      else map_option ((#) c) (unescape (d # ds)))"

definition scalar :: "string \<Rightarrow> string" where
  "scalar s = (if plain_ok s then s else dquote # escape s)"

definition parse_scalar :: "string \<Rightarrow> string option" where
  "parse_scalar s =
     (case s of
        [] \<Rightarrow> Some []
      | c # cs \<Rightarrow> if c = dquote then unescape cs else Some s)"

definition demo_yaml_encode :: "PrivateConfig \<Rightarrow> string" where
  "demo_yaml_encode conf =
     ''password: '' @ scalar (Password conf) @ [newline]
       @ ''device-id: '' @ fmt_d (DeviceID conf) @ [newline]"

definition digit_of :: "char \<Rightarrow> nat option" where
  "digit_of c =
     (let i = length (takeWhile (\<lambda>x. x \<noteq> c) ''0123456789'')
      in if i < 10 then Some i else None)"

fun parse_decimal :: "string \<Rightarrow> nat \<Rightarrow> nat option" where
  "parse_decimal [] acc = Some acc"
| "parse_decimal (c # cs) acc =
     (case digit_of c of None \<Rightarrow> None | Some d \<Rightarrow> parse_decimal cs (10 * acc + d))"

definition parse_int :: "string \<Rightarrow> int option" where
  "parse_int s =
     (case s of
        [] \<Rightarrow> None
      | c # cs \<Rightarrow>
          if c = CHR ''-'' then
            (if cs = [] then None else map_option (\<lambda>n. - int n) (parse_decimal cs 0))
          else map_option int (parse_decimal s 0))"

definition demo_yaml_decode :: "string \<Rightarrow> PrivateConfig option \<Rightarrow> PrivateConfig option \<times> error option" where
  "demo_yaml_decode buf into =
     (if buf = [] then (into, None)
      else
        let line1 = takeWhile (\<lambda>c. c \<noteq> newline) buf;
            line2 = takeWhile (\<lambda>c. c \<noteq> newline) (drop (Suc (length line1)) buf)
        in if take 10 line1 = ''password: '' \<and> take 11 line2 = ''device-id: '' then
             (case (parse_scalar (drop 10 line1), parse_int (drop 11 line2)) of
                (Some p, Some i) \<Rightarrow> (Some \<lparr>Password = p, DeviceID = i\<rparr>, None)
              | (Some p, None) \<Rightarrow> (into, Some (ErrorString ''yaml: unmarshal errors''))
              | (None, i) \<Rightarrow> (into, Some (ErrorString ''yaml: unmarshal errors'')))
           else (into, Some (ErrorString ''yaml: unmarshal errors'')))"

definition demo_fs :: "(string \<times> nat \<times> string) list \<Rightarrow> filesystem" where
  "demo_fs files = \<lparr>nodes = map_of files, fault = (\<lambda>op p. None)\<rparr>"

definition demo_world ::
  "(request \<Rightarrow> error + response) \<Rightarrow> (lockmode \<Rightarrow> bool \<times> error option) \<Rightarrow> filesystem \<Rightarrow> world" where
  "demo_world network locks fs =
     \<lparr>net = network, url_err = (\<lambda>u. None),
      rand_src = (\<lambda>i n. replicate n (CHR ''x'')),
      json_encode = demo_json_encode, json_decode = demo_json_decode,
      yaml_encode = demo_yaml_encode, yaml_decode = demo_yaml_decode,
      flock_try = locks, sent = [], rand_calls = 0, Fs = fs\<rparr>"

definition answering :: "int \<Rightarrow> string \<Rightarrow> request \<Rightarrow> error + response" where
  "answering code text req =
     Inr \<lparr>StatusCode = code, Body = \<lparr>received = text, read_err = None\<rparr>\<rparr>"

definition lock_free :: "lockmode \<Rightarrow> bool \<times> error option" where
  "lock_free m = (True, None)"

definition lock_timeout :: "error option \<Rightarrow> lockmode \<Rightarrow> bool \<times> error option" where
  "lock_timeout err m = (False, err)"

definition example_api :: CacophonyAPI where
  "example_api =
     \<lparr>Client = \<lparr>group = ''birds'', name = ''dev1'', password = ''secret'', token = ''tok123'',
                 justRegistered = False\<rparr>,
      serverURL = ''https://api.example.org'',
      regURL = ''https://api.example.org/api/v1/devices'',
      authURL = ''https://api.example.org/authenticate_device''\<rparr>"

definition unregistered_api :: CacophonyAPI where
  "unregistered_api = example_api\<lparr>Client := (Client example_api)\<lparr>password := [], token := []\<rparr>\<rparr>"

definition example_file :: FileResponse where
  "example_file =
     \<lparr>File = \<lparr>Details = \<lparr>Name = ''bait.wav'', OriginalName = ''bait.wav''\<rparr>, Type = ''audioBait''\<rparr>,
      Jwt = ''jwt1''\<rparr>"





section \<open>Facts about the model\<close>

subsection \<open>Requests and the two paths of \<open>NewAPI\<close>\<close>

lemmas demo_defs = demo_world_def demo_fs_def answering_def lock_free_def lock_timeout_def

lemma http_Post_eq:
  "http_Post w url ct payload =
     (case url_err w url of Some e \<Rightarrow> (Inl e, w)
      | None \<Rightarrow> (net w ((post_request url payload)\<lparr>Header := [(''Content-Type'', ct)]\<rparr>), w\<lparr>sent := sent w @ [(post_request url payload)\<lparr>Header := [(''Content-Type'', ct)]\<rparr>]\<rparr>))"
  by (simp add: http_Post_def http_NewRequest_def http_Do_def Header_Set_def post_request_def split: option.splits)

lemma handleHTTPResponse_success:
  "isHTTPSuccess (StatusCode resp) \<Longrightarrow> handleHTTPResponse resp = None"
  by (simp add: handleHTTPResponse_def)

lemma register_world:
  "password (Client api) = [] \<Longrightarrow>
   snd (snd (register w api)) =
     w\<lparr>rand_calls := Suc (rand_calls w),
       sent := sent w @ (if url_err w (regURL api) = None then [register_request w api] else [])\<rparr>"
  by (auto simp: register_def randString_def json_Marshal_def http_Post_eq register_request_def post_request_def
      split: option.splits sum.splits prod.splits)

lemma authenticate_world:
  "password (Client api) \<noteq> [] \<Longrightarrow>
   snd (snd (authenticate w api)) =
     w\<lparr>sent := sent w @ (if url_err w (authURL api) = None then [authenticate_request w api] else [])\<rparr>"
  by (auto simp: authenticate_def json_Marshal_def http_Post_eq authenticate_request_def post_request_def
      split: option.splits sum.splits prod.splits)

lemma authenticate_client:
  "password (Client (fst (snd (authenticate w api)))) = password (Client api) \<and>
   justRegistered (Client (fst (snd (authenticate w api)))) = justRegistered (Client api)"
  by (auto simp: authenticate_def json_Marshal_def http_Post_eq
      split: option.splits sum.splits prod.splits)

lemma NewAPI_world: "snd (snd (NewAPI w s g d p)) = snd (snd (NewAPI_run w s g d p))"
  by (simp add: NewAPI_def split: prod.splits option.splits)

lemma NewAPI_run_register:
  "d \<noteq> [] \<Longrightarrow> NewAPI_run w s g d [] =
     (case register w (NewAPI_object s g d []) of (err, api', w') \<Rightarrow> (Some api', err, w'))"
  by (simp add: NewAPI_run_def NewAPI_object_def basePath_def Let_def)

lemma NewAPI_run_authenticate:
  "d \<noteq> [] \<Longrightarrow> p \<noteq> [] \<Longrightarrow> NewAPI_run w s g d p =
     (case authenticate w (NewAPI_object s g d p) of (err, api', w') \<Rightarrow> (Some api', err, w'))"
  by (simp add: NewAPI_run_def NewAPI_object_def basePath_def Let_def)

lemma NewAPI_world_register:
  "d \<noteq> [] \<Longrightarrow> snd (snd (NewAPI w s g d [])) = snd (snd (register w (NewAPI_object s g d [])))"
  by (simp add: NewAPI_world NewAPI_run_register split: prod.splits)

lemma NewAPI_world_authenticate:
  "d \<noteq> [] \<Longrightarrow> p \<noteq> [] \<Longrightarrow>
   snd (snd (NewAPI w s g d p)) = snd (snd (authenticate w (NewAPI_object s g d p)))"
  by (simp add: NewAPI_world NewAPI_run_authenticate split: prod.splits)

lemma NewAPI_object_simps:
  "password (Client (NewAPI_object s g d p)) = p"
  "regURL (NewAPI_object s g d p) = s @ ''/api/v1/devices''"
  "authURL (NewAPI_object s g d p) = s @ ''/authenticate_device''"
  "justRegistered (Client (NewAPI_object s g d p)) = False"
  by (simp_all add: NewAPI_object_def)

text \<open>Both functions pass on what \<open>handleHTTPResponse\<close> makes of a response that is not 2xx.\<close>

lemma register_http_failure:
  assumes "password (Client api) = []" and "url_err w (regURL api) = None"
    and "net w (register_request w api) = Inr resp" and "\<not> isHTTPSuccess (StatusCode resp)"
  shows "fst (register w api) = handleHTTPResponse resp \<and> handleHTTPResponse resp \<noteq> None"
  using assms
  by (auto simp: register_def randString_def json_Marshal_def http_Post_eq register_request_def
      post_request_def handleHTTPResponse_def ioutil_ReadAll_def split: option.splits)

lemma authenticate_http_failure:
  assumes "password (Client api) \<noteq> []" and "url_err w (authURL api) = None"
    and "net w (authenticate_request w api) = Inr resp" and "\<not> isHTTPSuccess (StatusCode resp)"
  shows "fst (authenticate w api) = handleHTTPResponse resp \<and> handleHTTPResponse resp \<noteq> None"
  using assms
  by (auto simp: authenticate_def json_Marshal_def http_Post_eq authenticate_request_def
      post_request_def handleHTTPResponse_def ioutil_ReadAll_def split: option.splits)

subsection \<open>Downloads\<close>

lemma DownloadFile_existing:
  assumes "nodes (Fs w) filePath = Some f" and "fault (Fs w) OpStat filePath = None"
  shows "DownloadFile w api fileResponse filePath = (None, w)"
  using assms by (simp add: DownloadFile_def os_Stat_def)

lemma DownloadFile_absent:
  assumes "nodes (Fs w) filePath = None"
    and "fault (Fs w) OpCreate filePath = None" and "fault (Fs w) OpWrite filePath = None"
    and "url_err w (serverURL api @ ''/api/v1/signedUrl?jwt='' @ Jwt fileResponse) = None"
    and "net w \<lparr>Method = ''GET'', URL = serverURL api @ ''/api/v1/signedUrl?jwt='' @ Jwt fileResponse,
                Header = [], Payload = []\<rparr> = Inr resp"
    and "isHTTPSuccess (StatusCode resp)" and "read_err (Body resp) = None"
  shows "fst (DownloadFile w api fileResponse filePath) = None"
    and "map_option snd (nodes (Fs (snd (DownloadFile w api fileResponse filePath))) filePath)
           = Some (received (Body resp))"
  using assms
  by (simp_all add: DownloadFile_def os_Stat_def getFileFromJWT_def os_Create_def http_Get_def
      http_NewRequest_def http_Do_def basePath_def handleHTTPResponse_success io_Copy_def)

subsection \<open>The configuration file\<close>






subsection \<open>The stand-in codec decodes what it encodes\<close>























section \<open>The properties\<close>

subsection \<open>C1: \<open>DownloadFile\<close> on a path that exists\<close>

text \<open>
  C1 says that \<open>DownloadFile\<close> fails with an error when the destination exists and does
  not overwrite it. The source tests \<open>err == nil\<close> after \<open>os.Stat\<close> and returns that
  \<open>err\<close>: on the existing file \<open>/tmp/bait.wav\<close> the call returns \<open>nil\<close>, sends no request
  and leaves the file and the rest of the world as they were. The file is kept; the error
  is missing.
\<close>

theorem DownloadFile_existing_returns_nil:
  "DownloadFile (demo_world (answering 200 ''new'') lock_free (demo_fs [(''/tmp/bait.wav'', 420, ''old'')]))
     example_api example_file ''/tmp/bait.wav''
   = (None, demo_world (answering 200 ''new'') lock_free (demo_fs [(''/tmp/bait.wav'', 420, ''old'')]))"
  by (simp add: DownloadFile_def os_Stat_def demo_defs)

subsection \<open>C2: \<open>NewAPI\<close> runs one path\<close>

text \<open>
  C2. With an empty device name \<open>NewAPI\<close> returns the error \<open>no device name\<close> and the
  world is the one it started in: nothing was sent. With a device name and an empty
  password the world afterwards differs by one random string drawn and by the one request
  of \<open>register\<close> (none when its URL does not parse); with a password it differs by the
  one request of \<open>authenticate\<close> only, and no random string is drawn. The two requests go
  to different URLs, so neither call contains the other path.
\<close>

theorem NewAPI_one_path:
  "(d = [] \<longrightarrow> NewAPI w s g d p = (None, Some (ErrorString ''no device name''), w))
   \<and> (d \<noteq> [] \<and> p = [] \<longrightarrow>
        snd (snd (NewAPI w s g d p)) =
          w\<lparr>rand_calls := Suc (rand_calls w),
            sent := sent w @ (if url_err w (s @ ''/api/v1/devices'') = None
                              then [register_request w (NewAPI_object s g d p)] else [])\<rparr>)
   \<and> (d \<noteq> [] \<and> p \<noteq> [] \<longrightarrow>
        snd (snd (NewAPI w s g d p)) =
          w\<lparr>sent := sent w @ (if url_err w (s @ ''/authenticate_device'') = None
                              then [authenticate_request w (NewAPI_object s g d p)] else [])\<rparr>)
   \<and> URL (register_request w (NewAPI_object s g d p)) = s @ ''/api/v1/devices''
   \<and> URL (authenticate_request w (NewAPI_object s g d p)) = s @ ''/authenticate_device''
   \<and> s @ ''/api/v1/devices'' \<noteq> s @ ''/authenticate_device''"
proof (intro conjI impI)
  assume "d = []"
  then show "NewAPI w s g d p = (None, Some (ErrorString ''no device name''), w)"
    by (simp add: NewAPI_def NewAPI_run_def)
next
  assume a: "d \<noteq> [] \<and> p = []"
  then show "snd (snd (NewAPI w s g d p)) =
          w\<lparr>rand_calls := Suc (rand_calls w),
            sent := sent w @ (if url_err w (s @ ''/api/v1/devices'') = None
                              then [register_request w (NewAPI_object s g d p)] else [])\<rparr>"
    by (simp add: NewAPI_world_register register_world NewAPI_object_simps)
next
  assume a: "d \<noteq> [] \<and> p \<noteq> []"
  then show "snd (snd (NewAPI w s g d p)) =
          w\<lparr>sent := sent w @ (if url_err w (s @ ''/authenticate_device'') = None
                              then [authenticate_request w (NewAPI_object s g d p)] else [])\<rparr>"
    by (simp add: NewAPI_world_authenticate authenticate_world NewAPI_object_simps)
qed (simp_all add: register_request_def authenticate_request_def post_request_def NewAPI_object_def)

theorem NewAPI_one_path_witness:
  "NewAPI (demo_world (answering 201 ''ok:tok123'') lock_free (demo_fs [])) ''https://api.example.org'' ''birds'' [] ''secret''
     = (None, Some (ErrorString ''no device name''), demo_world (answering 201 ''ok:tok123'') lock_free (demo_fs []))
   \<and> (''dev1'' \<noteq> [] \<and> ([] :: string) = [])
   \<and> map URL (sent (snd (snd (NewAPI (demo_world (answering 201 ''ok:tok123'') lock_free (demo_fs []))
         ''https://api.example.org'' ''birds'' ''dev1'' []))))
       = [''https://api.example.org/api/v1/devices'']
   \<and> (''dev1'' \<noteq> [] \<and> ''secret'' \<noteq> [])
   \<and> map URL (sent (snd (snd (NewAPI (demo_world (answering 201 ''ok:tok123'') lock_free (demo_fs []))
         ''https://api.example.org'' ''birds'' ''dev1'' ''secret''))))
       = [''https://api.example.org/authenticate_device'']"
  using NewAPI_one_path [where d = "[]" and w = "demo_world (answering 201 ''ok:tok123'') lock_free (demo_fs [])"
           and s = "''https://api.example.org''" and g = "''birds''" and p = "''secret''"]
        NewAPI_one_path [where d = "''dev1''" and w = "demo_world (answering 201 ''ok:tok123'') lock_free (demo_fs [])"
           and s = "''https://api.example.org''" and g = "''birds''" and p = "[]"]
        NewAPI_one_path [where d = "''dev1''" and w = "demo_world (answering 201 ''ok:tok123'') lock_free (demo_fs [])"
           and s = "''https://api.example.org''" and g = "''birds''" and p = "''secret''"]
  by (simp add: demo_defs)

subsection \<open>C3: a given password is kept\<close>

text \<open>
  C3. For a non-empty device name and a non-empty password, \<open>NewAPI\<close> allocates a
  session whose password after the call is the one given and whose \<open>justRegistered\<close> is
  false, whatever error the call ends with; no random string is drawn. The caller
  receives that session when the error is \<open>nil\<close>.
\<close>

theorem NewAPI_keeps_password:
  assumes "d \<noteq> []" and "p \<noteq> []"
  shows "\<exists>api err w'. NewAPI_run w s g d p = (Some api, err, w')
           \<and> password (Client api) = p \<and> \<not> justRegistered (Client api)
           \<and> rand_calls w' = rand_calls w
           \<and> NewAPI w s g d p = (if err = None then Some api else None, err, w')"
proof -
  obtain err api w' where r: "authenticate w (NewAPI_object s g d p) = (err, api, w')"
    by (cases "authenticate w (NewAPI_object s g d p)") 
  have pw: "password (Client (NewAPI_object s g d p)) \<noteq> []" using assms by (simp add: NewAPI_object_def)
  from authenticate_client [of w "NewAPI_object s g d p"] r
  have c: "password (Client api) = p \<and> \<not> justRegistered (Client api)"
    by (simp add: NewAPI_object_def)
  from authenticate_world [OF pw, of w] r have "rand_calls w' = rand_calls w" by simp
  moreover have run: "NewAPI_run w s g d p = (Some api, err, w')"
    using assms r by (simp add: NewAPI_run_authenticate)
  moreover have "NewAPI w s g d p = (if err = None then Some api else None, err, w')"
    by (simp add: NewAPI_def run split: option.splits)
  ultimately show ?thesis using c by blast
qed

theorem NewAPI_keeps_password_witness:
  "''dev1'' \<noteq> [] \<and> ''secret'' \<noteq> [] \<and>
   (\<exists>api err w'. NewAPI_run (demo_world (answering 401 ''fail:wrong password'') lock_free (demo_fs []))
        ''https://api.example.org'' ''birds'' ''dev1'' ''secret'' = (Some api, err, w')
      \<and> password (Client api) = ''secret'' \<and> \<not> justRegistered (Client api))"
  using NewAPI_keeps_password [where d = "''dev1''" and p = "''secret''"
     and w = "demo_world (answering 401 ''fail:wrong password'') lock_free (demo_fs [])"
     and s = "''https://api.example.org''" and g = "''birds''"]
  by auto

subsection \<open>C4: \<open>Write\<close> without the exclusive lock\<close>

text \<open>
  C4. On a handle for which \<open>Locked\<close> is false, \<open>Write\<close> returns the error
  \<open>file is not locked\<close> followed by the file name, for every device id and password, and
  the world, so the credential file too, is unchanged.
\<close>

theorem Write_unlocked:
  "\<not> Locked (fileLock h) \<Longrightarrow>
   Write w h deviceID pw = (Some (ErrorString (''file is not locked '' @ filename h)), w)"
  by (simp add: Write_def yaml_Marshal_def)

theorem Write_unlocked_witness:
  "\<not> Locked (fileLock (NewLockSafeConfig RegisteredConfigPath)) \<and>
   Write (demo_world (answering 200 []) lock_free (demo_fs [])) (NewLockSafeConfig RegisteredConfigPath) 42 ''abc''
     = (Some (ErrorString ''file is not locked /etc/cacophony/device-priv.yaml''),
        demo_world (answering 200 []) lock_free (demo_fs []))"
  using Write_unlocked [where h = "NewLockSafeConfig RegisteredConfigPath" and deviceID = 42 and pw = "''abc''"
      and w = "demo_world (answering 200 []) lock_free (demo_fs [])"]
  by (simp add: NewLockSafeConfig_def flock_New_def Locked_def RegisteredConfigPath_def)

subsection \<open>C5: \<open>Read\<close> on an absent and on a corrupt file\<close>

text \<open>
  C5, amended. When the handle holds the exclusive lock, or its request for the shared
  lock is granted without error, \<open>Read\<close> on a file that is absent returns \<open>nil, nil\<close>, and
  \<open>Read\<close> on a file that is there, can be read and does not decode returns \<open>nil\<close> and the
  error of the decoder.
\<close>

theorem Read_with_lock:
  assumes "Locked (fileLock h) \<or> fst (getReadLock w (fileLock h)) = (True, None)"
  shows "(nodes (Fs w) (filename h) = None \<longrightarrow> fst (Read w h) = (None, None))
       \<and> (\<forall>perm buf conf e. nodes (Fs w) (filename h) = Some (perm, buf)
             \<and> fault (Fs w) OpRead (filename h) = None
             \<and> yaml_decode w buf (config h) = (conf, Some e)
           \<longrightarrow> fst (Read w h) = (None, Some e))"
  using assms
  by (auto simp: Read_def Read_file_def afero_ReadFile_def yaml_Unmarshal_def Let_def
      getReadLock_def TryRLockContext_def tryCtx_def
      split: prod.splits option.splits if_splits)

theorem Read_with_lock_witness:
  "fst (getReadLock (demo_world (answering 200 []) lock_free (demo_fs []))
          (fileLock (NewLockSafeConfig RegisteredConfigPath))) = (True, None)
   \<and> nodes (Fs (demo_world (answering 200 []) lock_free (demo_fs []))) (filename (NewLockSafeConfig RegisteredConfigPath)) = None
   \<and> fst (Read (demo_world (answering 200 []) lock_free (demo_fs [])) (NewLockSafeConfig RegisteredConfigPath))
       = (None, None)
   \<and> fst (getReadLock (demo_world (answering 200 []) lock_free (demo_fs [(RegisteredConfigPath, 384, ''password'')]))
          (fileLock (NewLockSafeConfig RegisteredConfigPath))) = (True, None)
   \<and> fst (Read (demo_world (answering 200 []) lock_free (demo_fs [(RegisteredConfigPath, 384, ''password'')]))
         (NewLockSafeConfig RegisteredConfigPath))
       = (None, Some (ErrorString ''yaml: unmarshal errors''))"
  using Read_with_lock [where w = "demo_world (answering 200 []) lock_free (demo_fs [])"
           and h = "NewLockSafeConfig RegisteredConfigPath"]
        Read_with_lock [where w = "demo_world (answering 200 []) lock_free (demo_fs [(RegisteredConfigPath, 384, ''password'')])"
           and h = "NewLockSafeConfig RegisteredConfigPath"]
  by (simp add: getReadLock_def TryRLockContext_def tryCtx_def NewLockSafeConfig_def flock_New_def
      demo_yaml_decode_def newline_def demo_defs)

text \<open>
  C5 as stated has no condition on the lock. When the shared lock is not obtained and
  the attempt ends with an error (here the deadline of \<open>lockTimeout\<close>), \<open>Read\<close> returns that
  error before it looks at the file: on an absent file the result is an error, not
  \<open>nil, nil\<close>.
\<close>

theorem Read_absent_counterexample:
  "nodes (Fs (demo_world (answering 200 []) (lock_timeout (Some (ErrorString ''context deadline exceeded''))) (demo_fs [])))
     (filename (NewLockSafeConfig RegisteredConfigPath)) = None
   \<and> fst (Read (demo_world (answering 200 []) (lock_timeout (Some (ErrorString ''context deadline exceeded''))) (demo_fs []))
          (NewLockSafeConfig RegisteredConfigPath))
     = (None, Some (ErrorString ''context deadline exceeded''))"
  by (simp add: Read_def getReadLock_def TryRLockContext_def tryCtx_def NewLockSafeConfig_def flock_New_def
      Locked_def demo_defs)

subsection \<open>C6: what was written is read back\<close>




subsection \<open>C7: HTTP failures\<close>

text \<open>
  C7, amended. For a response whose status is not 2xx and whose body is read to the end
  without error, \<open>handleHTTPResponse\<close> returns an \<open>Error\<close> whose text ends with the body and
  which is permanent exactly when the status is in [400, 500). When reading the body
  fails, it returns a temporary error that names the status and the read error, whatever
  the status.
\<close>

theorem handleHTTPResponse_failure:
  assumes "\<not> (200 \<le> StatusCode resp \<and> StatusCode resp < 300)"
  shows "(read_err (Body resp) = None \<longrightarrow>
           handleHTTPResponse resp =
             Some (APIError (''HTTP request failed ('' @ fmt_d (StatusCode resp) @ ''): ''
                               @ received (Body resp))
                            (400 \<le> StatusCode resp \<and> StatusCode resp < 500)))
       \<and> (\<forall>e. read_err (Body resp) = Some e \<longrightarrow>
            handleHTTPResponse resp =
              Some (APIError (''request failed ('' @ fmt_d (StatusCode resp)
                                @ '') and body read failed: '' @ Error e) False))"
  using assms
  by (simp add: handleHTTPResponse_def isHTTPSuccess_def isHTTPClientError_def
      ioutil_ReadAll_def temporaryError_def)

theorem handleHTTPResponse_failure_witness:
  "\<not> (200 \<le> (422::int) \<and> (422::int) < 300) \<and>
   handleHTTPResponse \<lparr>StatusCode = 422, Body = \<lparr>received = ''devicename in use'', read_err = None\<rparr>\<rparr>
     = Some (APIError ''HTTP request failed (422): devicename in use'' True)
   \<and> \<not> (200 \<le> (503::int) \<and> (503::int) < 300) \<and>
   handleHTTPResponse \<lparr>StatusCode = 503, Body = \<lparr>received = ''busy'', read_err = None\<rparr>\<rparr>
     = Some (APIError ''HTTP request failed (503): busy'' False)
   \<and> handleHTTPResponse \<lparr>StatusCode = 301, Body = \<lparr>received = ''moved'', read_err = Some (ErrorString ''EOF'')\<rparr>\<rparr>
     = Some (APIError ''request failed (301) and body read failed: EOF'' False)"
  using handleHTTPResponse_failure [where resp = "\<lparr>StatusCode = 422, Body = \<lparr>received = ''devicename in use'', read_err = None\<rparr>\<rparr>"]
        handleHTTPResponse_failure [where resp = "\<lparr>StatusCode = 503, Body = \<lparr>received = ''busy'', read_err = None\<rparr>\<rparr>"]
        handleHTTPResponse_failure [where resp = "\<lparr>StatusCode = 301, Body = \<lparr>received = ''moved'', read_err = Some (ErrorString ''EOF'')\<rparr>\<rparr>"]
  by (simp add: fmt_d_def decimal.simps)

text \<open>
  C7 as stated covers every response that is not 2xx. A 404 whose body breaks off while
  it is read gives a temporary error without the body, although 404 is in [400, 500).
\<close>

theorem handleHTTPResponse_counterexample:
  "\<not> isHTTPSuccess 404 \<and> isHTTPClientError 404 \<and>
   handleHTTPResponse \<lparr>StatusCode = 404,
       Body = \<lparr>received = ''device not found'', read_err = Some (ErrorString ''unexpected EOF'')\<rparr>\<rparr>
     = Some (APIError ''request failed (404) and body read failed: unexpected EOF'' False)"
  by (simp add: handleHTTPResponse_def isHTTPSuccess_def isHTTPClientError_def ioutil_ReadAll_def
      temporaryError_def fmt_d_def decimal.simps)

subsection \<open>C8: a 2xx response that reports failure\<close>

text \<open>
  C8. When the response to the request of \<open>register\<close> or of \<open>authenticate\<close> is 2xx and
  decodes to a \<open>tokenResponse\<close> with \<open>Success\<close> false, the call fails with a plain error:
  the fixed words of the function followed by \<open>message\<close>, which is the first of
  \<open>Messages\<close>, or \<open>unknown\<close> when there is none. The error carries no permanent flag and
  does not depend on which 2xx status it was.
\<close>

theorem application_failure:
  assumes "isHTTPSuccess (StatusCode resp)"
    and "json_decode w (Body resp) = Inr resp'"
    and "\<not> Success resp'"
  shows "message resp' = (case Messages resp' of [] \<Rightarrow> ''unknown'' | m # ms \<Rightarrow> m)
       \<and> (password (Client api) = [] \<and> url_err w (regURL api) = None
            \<and> net w (register_request w api) = Inr resp
          \<longrightarrow> fst (register w api) =
                Some (ErrorString (''registration failed: '' @ message resp')))
       \<and> (password (Client api) \<noteq> [] \<and> url_err w (authURL api) = None
            \<and> net w (authenticate_request w api) = Inr resp
          \<longrightarrow> fst (authenticate w api) =
                Some (ErrorString (''failed getting new token: '' @ message resp')))"
  using assms
  by (auto simp: register_def authenticate_def randString_def json_Marshal_def http_Post_eq
      register_request_def authenticate_request_def post_request_def handleHTTPResponse_success
      message_def split: list.splits)

theorem application_failure_witness:
  "isHTTPSuccess 200
   \<and> json_decode (demo_world (answering 200 ''fail:devicename in use'') lock_free (demo_fs []))
        \<lparr>received = ''fail:devicename in use'', read_err = None\<rparr>
       = Inr \<lparr>Success = False, Messages = [''devicename in use''], Token = []\<rparr>
   \<and> fst (register (demo_world (answering 200 ''fail:devicename in use'') lock_free (demo_fs [])) unregistered_api)
       = Some (ErrorString ''registration failed: devicename in use'')
   \<and> json_decode (demo_world (answering 200 ''fail'') lock_free (demo_fs []))
        \<lparr>received = ''fail'', read_err = None\<rparr>
       = Inr \<lparr>Success = False, Messages = [], Token = []\<rparr>
   \<and> fst (authenticate (demo_world (answering 200 ''fail'') lock_free (demo_fs [])) example_api)
       = Some (ErrorString ''failed getting new token: unknown'')"
  using application_failure [where w = "demo_world (answering 200 ''fail:devicename in use'') lock_free (demo_fs [])"
          and resp = "\<lparr>StatusCode = 200, Body = \<lparr>received = ''fail:devicename in use'', read_err = None\<rparr>\<rparr>"
          and resp' = "\<lparr>Success = False, Messages = [''devicename in use''], Token = []\<rparr>"
          and api = unregistered_api]
        application_failure [where w = "demo_world (answering 200 ''fail'') lock_free (demo_fs [])"
          and resp = "\<lparr>StatusCode = 200, Body = \<lparr>received = ''fail'', read_err = None\<rparr>\<rparr>"
          and resp' = "\<lparr>Success = False, Messages = [], Token = []\<rparr>"
          and api = example_api]
  by (simp add: isHTTPSuccess_def demo_json_decode_def unregistered_api_def example_api_def demo_defs)

subsection \<open>C9: the URL of \<open>GetSchedule\<close>\<close>

text \<open>
  C9 says that \<open>GetSchedule\<close> requests the base path, a slash and \<open>schedules\<close>. The source
  appends \<open>schedules\<close> to the base path with no slash between them: for the server
  \<open>https://api.example.org\<close> the one request sent goes to \<open>/api/v1schedules\<close>, which is not
  the URL of the schedule.
\<close>

theorem GetSchedule_url:
  "map URL (sent (snd (GetSchedule (demo_world (answering 200 ''[]'') lock_free (demo_fs [])) example_api)))
     = [''https://api.example.org/api/v1schedules'']
   \<and> ''https://api.example.org/api/v1schedules'' \<noteq> ''https://api.example.org'' @ ''/api/v1/schedules''"
  by (simp add: GetSchedule_def http_NewRequest_def http_Do_def Header_Set_def basePath_def
      example_api_def demo_defs)

subsection \<open>C10: a lock that is not obtained\<close>




end
